theory Spec2Isabelle
  imports Main "HOL-Library.Word"
begin

unbundle bit_operations_syntax

section \<open>Data model\<close>

text \<open>
  The program targets an 8-bit AVR (it includes \<^verbatim>\<open>avr/interrupt.h\<close> and drives Timer 2 and
  PINB directly). There \<^verbatim>\<open>int\<close> and \<^verbatim>\<open>unsigned int\<close> are 16 bits wide and
  \<^verbatim>\<open>uint16_t\<close> is \<^verbatim>\<open>unsigned int\<close>, so arithmetic that mixes a \<^verbatim>\<open>uint16_t\<close> with an
  \<^verbatim>\<open>int\<close> constant is unsigned 16-bit arithmetic and wraps modulo 65536.
\<close>

type_synonym uint8_t = "8 word"
type_synonym uint16_t = "16 word"
type_synonym uint32_t = "32 word"

abbreviation STATE_IDLE :: uint8_t where "STATE_IDLE \<equiv> 0"
abbreviation STATE_MARK :: uint8_t where "STATE_MARK \<equiv> 1"
abbreviation STATE_SPACE :: uint8_t where "STATE_SPACE \<equiv> 2"
abbreviation STATE_FINISHED :: uint8_t where "STATE_FINISHED \<equiv> 3"

abbreviation PULSE_DECODING_MARGIN_OF_ERROR :: uint16_t where
  "PULSE_DECODING_MARGIN_OF_ERROR \<equiv> 150"

abbreviation PULSE_TIME_BLOCKS_IN_MICROSECONDS :: uint16_t where
  "PULSE_TIME_BLOCKS_IN_MICROSECONDS \<equiv> 50"

text \<open>The declared size of \<^verbatim>\<open>ir_pulses[200]\<close>.\<close>

abbreviation IR_PULSES_SIZE :: nat where "IR_PULSES_SIZE \<equiv> 200"

text \<open>
  \<^verbatim>\<open>INITIAL_TIMER_COUNT_VALUE\<close> of the .pde file is \<open>256 - 50 * (16000000 / 8 / 1000000) + 2\<close>,
  that is 158; \<^verbatim>\<open>TIMER_COUNT_START_VALUE\<close> of the .ino file is 156.
\<close>

abbreviation INITIAL_TIMER_COUNT_VALUE :: uint8_t where "INITIAL_TIMER_COUNT_VALUE \<equiv> 158"
abbreviation TIMER_COUNT_START_VALUE :: uint8_t where "TIMER_COUNT_START_VALUE \<equiv> 156"

text \<open>
  What is sent to the serial port: \<^verbatim>\<open>Serial.print("...")\<close> is \<open>Str\<close>,
  \<^verbatim>\<open>Serial.print(x, DEC)\<close> is \<open>Dec\<close> of the value printed.
\<close>

datatype serial_item = Str string | Dec nat

text \<open>
  An access to \<^verbatim>\<open>ir_pulses\<close> at an index of 200 or more is undefined behaviour in C; the
  model makes it an error value carrying the offending index.
\<close>

datatype error = WriteOutOfBounds nat | ReadOutOfBounds nat

text \<open>
  The global variables of the program. The per-pulse tick counter is called
  \<^verbatim>\<open>timeblock_counter\<close> in the .pde file and \<^verbatim>\<open>current_pulse_block_counter\<close> in the
  .ino file; it is one field here. \<open>TCNT2\<close> is the timer register both handlers reload,
  \<open>serial\<close> the text written to the serial port so far.
\<close>

record engine =
  ir_pulses :: "uint16_t list"
  current_ir_pulse_index :: uint16_t
  number_of_pulses :: uint16_t
  state :: uint8_t
  timeblock_counter :: uint16_t
  TCNT2 :: uint8_t
  serial :: "serial_item list"

abbreviation current_pulse_block_counter :: "engine \<Rightarrow> uint16_t" where
  "current_pulse_block_counter \<equiv> timeblock_counter"

text \<open>
  The globals when \<^verbatim>\<open>setup()\<close> of the .pde file has run: the statically allocated
  variables are zero, the state is Idle and the timer register holds its start value.
  \<^verbatim>\<open>setup()\<close> of the .ino file differs in the start value of the timer only.
\<close>

definition initial_engine :: engine where
  "initial_engine =
     \<lparr>ir_pulses = replicate IR_PULSES_SIZE 0, current_ir_pulse_index = 0,
      number_of_pulses = 0, state = STATE_IDLE, timeblock_counter = 0,
      TCNT2 = INITIAL_TIMER_COUNT_VALUE, serial = []\<rparr>"

definition initial_engine_ino :: engine where
  "initial_engine_ino = initial_engine\<lparr>TCNT2 := TIMER_COUNT_START_VALUE\<rparr>"

section \<open>Tolerance matching\<close>

text \<open>
  \<^verbatim>\<open>is_pulse_match(expected_value, pulse_time_blocks)\<close>: the second argument is a tick count;
  the product with 50 is stored in a \<^verbatim>\<open>uint16_t\<close>, and both comparisons are unsigned
  16-bit comparisons. The C function returns 1 or 0; the model returns the truth value.
\<close>

definition is_pulse_match :: "uint16_t \<Rightarrow> uint16_t \<Rightarrow> bool" where
  "is_pulse_match expected_value pulse_time_blocks =
     (let actual_time = pulse_time_blocks * PULSE_TIME_BLOCKS_IN_MICROSECONDS
      in expected_value \<le> actual_time + PULSE_DECODING_MARGIN_OF_ERROR \<and>
         expected_value \<ge> actual_time - PULSE_DECODING_MARGIN_OF_ERROR)"

section \<open>NEC frame decoder\<close>

text \<open>
  The loop \<^verbatim>\<open>for(int i = 3; i < 66; i++)\<close> of \<^verbatim>\<open>try_print_nec_details\<close>, with the
  accumulator \<^verbatim>\<open>nec_data\<close>. \<open>None\<close> is the \<^verbatim>\<open>return 0\<close> inside the loop.
\<close>

function nec_loop :: "uint16_t list \<Rightarrow> nat \<Rightarrow> uint32_t \<Rightarrow> uint32_t option" where
  "nec_loop pulses i nec_data =
     (if i < 66 then
        (if i mod 2 \<noteq> 0 then
           nec_loop pulses (i + 1)
             (if is_pulse_match 565 (pulses ! i)
              then drop_bit 1 nec_data OR 0x80000000
              else drop_bit 1 nec_data)
         else if \<not> is_pulse_match 560 (pulses ! i) then None
         else nec_loop pulses (i + 1) nec_data)
      else Some nec_data)"
  by pat_completeness auto
termination
  by (relation "measure (\<lambda>(pulses, i, nec_data). 66 - i)") auto

declare nec_loop.simps [simp del]

text \<open>
  The deciding part of \<^verbatim>\<open>try_print_nec_details\<close>: the guard on the pulse count, the leader
  and the stop mark, then the loop. \<open>None\<close> is \<^verbatim>\<open>return 0\<close>, \<open>Some d\<close> is the value of
  \<^verbatim>\<open>nec_data\<close> when the loop is left, before it is printed.
\<close>

definition nec_decode :: "engine \<Rightarrow> uint32_t option" where
  "nec_decode s =
     (if number_of_pulses s \<noteq> 67 \<or> \<not> is_pulse_match 9000 (ir_pulses s ! 0)
         \<or> \<not> is_pulse_match 4500 (ir_pulses s ! 1)
         \<or> \<not> is_pulse_match 560 (ir_pulses s ! 66)
      then None
      else nec_loop (ir_pulses s) 3 0)"

text \<open>
  The printing loop \<^verbatim>\<open>for(int i = 0; i < 32; i++)\<close>: the top bit is printed and the word
  shifted left.
\<close>

fun nec_bits :: "nat \<Rightarrow> uint32_t \<Rightarrow> serial_item list" where
  "nec_bits 0 nec_data = []"
| "nec_bits (Suc n) nec_data =
     (if nec_data AND 0x80000000 \<noteq> 0 then Str ''1'' else Str ''0'')
       # nec_bits n (push_bit 1 nec_data)"

text \<open>\<^verbatim>\<open>try_print_nec_details\<close>: the new state and the returned flag.\<close>

definition try_print_nec_details :: "engine \<Rightarrow> engine \<times> bool" where
  "try_print_nec_details s =
     (case nec_decode s of
        None \<Rightarrow> (s, False)
      | Some nec_data \<Rightarrow>
          (s\<lparr>serial := serial s @ [Str ''NEC Data : ''] @ nec_bits 32 nec_data
                @ [Str [CHR 0x0A]]\<rparr>, True))"

text \<open>
  \<^verbatim>\<open>print_out_pulse_details\<close>. The loop reads \<^verbatim>\<open>ir_pulses[i]\<close> for every
  \<open>i < number_of_pulses\<close>; a count above 200 reads past the array. Each duration is the
  16-bit product of the tick count and 50.
\<close>

definition print_out_pulse_details :: "engine \<Rightarrow> error + engine" where
  "print_out_pulse_details s =
     (if unat (number_of_pulses s) \<le> IR_PULSES_SIZE then
        (let s1 = s\<lparr>serial := serial s
                    @ [Str (CHR 0x0A # ''Number of pulses = ''),
                       Dec (unat (number_of_pulses s)), Str [CHR 0x0A, CHR ''['']]
                    @ concat (map (\<lambda>i. [Dec (unat (ir_pulses s ! i
                                               * PULSE_TIME_BLOCKS_IN_MICROSECONDS)),
                                         Str '','']) [0..<unat (number_of_pulses s)])
                    @ [Str [CHR '']'', CHR 0x0A]]\<rparr>;
             (s2, is_nec) = try_print_nec_details s1
         in if \<not> is_nec
            then Inr (s2\<lparr>serial := serial s2 @ [Str (''Unknown format.'' @ [CHR 0x0A])]\<rparr>)
            else Inr s2)
      else Inl (ReadOutOfBounds IR_PULSES_SIZE))"

section \<open>Pulse capture engine\<close>

text \<open>
  The assignment \<^verbatim>\<open>ir_pulses[current_ir_pulse_index] = counter\<close>, with the bound of the
  array checked.
\<close>

definition store_pulse :: "engine \<Rightarrow> error + engine" where
  "store_pulse s =
     (if unat (current_ir_pulse_index s) < IR_PULSES_SIZE
      then Inr (s\<lparr>ir_pulses :=
                   (ir_pulses s)[unat (current_ir_pulse_index s) := timeblock_counter s]\<rparr>)
      else Inl (WriteOutOfBounds (unat (current_ir_pulse_index s))))"

text \<open>
  The timer interrupt handler of the .pde file. The argument is the value of
  \<^verbatim>\<open>IR_PIN_IS_ACTIVE\<close> at this tick.
\<close>

definition tick_pde :: "bool \<Rightarrow> engine \<Rightarrow> error + engine" where
  "tick_pde ir_pin_is_active s0 =
     (let s = s0\<lparr>TCNT2 := INITIAL_TIMER_COUNT_VALUE\<rparr> in
      if state s \<noteq> STATE_FINISHED then
        (let s = s\<lparr>timeblock_counter := timeblock_counter s + 1\<rparr> in
         if state s = STATE_IDLE then
           (if ir_pin_is_active
            then store_pulse (s\<lparr>state := STATE_MARK, timeblock_counter := 1\<rparr>)
            else Inr s)
         else if state s = STATE_MARK then
           (if ir_pin_is_active
            then store_pulse s
            else store_pulse
                   (s\<lparr>state := STATE_SPACE, timeblock_counter := 1,
                      current_ir_pulse_index := current_ir_pulse_index s + 1\<rparr>))
         else if state s = STATE_SPACE then
           (if timeblock_counter s \<ge> 600
            then Inr (s\<lparr>state := STATE_FINISHED, timeblock_counter := 0,
                        number_of_pulses := current_ir_pulse_index s,
                        current_ir_pulse_index := 0\<rparr>)
            else if ir_pin_is_active
            then store_pulse
                   (s\<lparr>state := STATE_MARK, timeblock_counter := 1,
                      current_ir_pulse_index := current_ir_pulse_index s + 1\<rparr>)
            else store_pulse s)
         else Inr s)
      else Inr s)"

text \<open>
  The timer interrupt handler of the .ino file, branch by branch as written: the guard
  \<^verbatim>\<open>if(state != STATE_FINISHED){ return; }\<close> comes first.
\<close>

definition tick_ino :: "bool \<Rightarrow> engine \<Rightarrow> error + engine" where
  "tick_ino ir_pin_is_active s0 =
     (let s = s0\<lparr>TCNT2 := TIMER_COUNT_START_VALUE\<rparr> in
      if state s \<noteq> STATE_FINISHED then Inr s
      else if state s = STATE_IDLE then
        (if ir_pin_is_active
         then store_pulse (s\<lparr>state := STATE_MARK, timeblock_counter := 1\<rparr>)
         else Inr s)
      else if state s = STATE_MARK then
        (if ir_pin_is_active
         then store_pulse (s\<lparr>timeblock_counter := timeblock_counter s + 1\<rparr>)
         else store_pulse
                (s\<lparr>state := STATE_SPACE, timeblock_counter := 1,
                   current_ir_pulse_index := current_ir_pulse_index s + 1\<rparr>))
      else if state s = STATE_SPACE then
        (if timeblock_counter s \<ge> 600
         then (case print_out_pulse_details (s\<lparr>state := STATE_FINISHED\<rparr>) of
                 Inl e \<Rightarrow> Inl e
               | Inr s' \<Rightarrow>
                   Inr (s'\<lparr>state := STATE_IDLE, timeblock_counter := 0,
                          number_of_pulses := current_ir_pulse_index s',
                          current_ir_pulse_index := 0\<rparr>))
         else if ir_pin_is_active
         then store_pulse
                (s\<lparr>state := STATE_MARK, timeblock_counter := 1,
                   current_ir_pulse_index := current_ir_pulse_index s + 1\<rparr>)
         else store_pulse (s\<lparr>timeblock_counter := timeblock_counter s + 1\<rparr>))
      else Inr s)"


text \<open>A run of the handler over a list of line samples; it stops at the first error.\<close>

fun run_ticks :: "(bool \<Rightarrow> engine \<Rightarrow> error + engine) \<Rightarrow> bool list \<Rightarrow> engine \<Rightarrow> error + engine"
  where
  "run_ticks tick [] s = Inr s"
| "run_ticks tick (a # as) s =
     (case tick a s of Inl e \<Rightarrow> Inl e | Inr s' \<Rightarrow> run_ticks tick as s')"

section \<open>The program past the end of the buffer\<close>




section \<open>Synthetic NEC frames\<close>

text \<open>
  The spec's NEC-shaped pulse sequence for a 32-bit value \<open>v\<close>, stated on a pulse buffer:
  leader mark, leader space and stop mark within tolerance, every payload mark (indices
  2, 4, ..., 64) within tolerance of 560, and the payload space of bit \<open>k\<close> (index
  \<open>3 + 2 * k\<close>) within tolerance of 565 where the bit is 1 and of 1690 where it is 0.
\<close>

definition nec_shaped :: "uint16_t list \<Rightarrow> uint32_t \<Rightarrow> bool" where
  "nec_shaped pulses v =
     (is_pulse_match 9000 (pulses ! 0) \<and> is_pulse_match 4500 (pulses ! 1)
      \<and> is_pulse_match 560 (pulses ! 66)
      \<and> list_all (\<lambda>k. is_pulse_match 560 (pulses ! (2 + 2 * k))
                      \<and> is_pulse_match (if bit v k then 565 else 1690)
                           (pulses ! (3 + 2 * k))) [0..<32])"

text \<open>
  One such buffer, in ticks of 50 microseconds: 180 ticks (9000) and 90 ticks (4500) for the
  leader, 11 ticks (550) for every mark and for a one-space, 34 ticks (1700) for a
  zero-space; the entries from 67 on are unused.
\<close>

definition nec_frame :: "uint32_t \<Rightarrow> uint16_t list" where
  "nec_frame v =
     map (\<lambda>i. if i = 0 then 180 else if i = 1 then 90 else if 67 \<le> i then 0
              else if even i then 11 else if bit v ((i - 3) div 2) then 11 else 34)
       [0..<IR_PULSES_SIZE]"

text \<open>The engine as the consumer finds it when that frame has been captured.\<close>

definition frame_engine :: "uint16_t list \<Rightarrow> engine" where
  "frame_engine pulses =
     \<lparr>ir_pulses = pulses, current_ir_pulse_index = 0, number_of_pulses = 67,
      state = STATE_FINISHED, timeblock_counter = 0, TCNT2 = INITIAL_TIMER_COUNT_VALUE,
      serial = []\<rparr>"

section \<open>Shared data\<close>

text \<open>
  The data shared between the interrupt handler and the consumer: the capture state, the
  pulse buffer, the buffer index, the pulse count and the per-pulse tick counter.
  \<open>same_shared s s'\<close> says that \<open>s'\<close> holds the same shared data as \<open>s\<close>.
\<close>

definition same_shared :: "engine \<Rightarrow> engine \<Rightarrow> bool" where
  "same_shared s s' =
     (state s' = state s \<and> ir_pulses s' = ir_pulses s
      \<and> current_ir_pulse_index s' = current_ir_pulse_index s
      \<and> number_of_pulses s' = number_of_pulses s
      \<and> timeblock_counter s' = timeblock_counter s)"


section \<open>Tolerance matching: the range without wrap-around\<close>

lemma uint_ticks_us:
  assumes "uint (t :: uint16_t) \<le> 1310"
  shows "uint (t * 50) = uint t * 50"
proof -
  have "uint (t * 50) = (uint t * 50) mod 65536"
    by (simp add: uint_word_ariths)
  also have "\<dots> = uint t * 50"
    using assms by simp
  finally show ?thesis .
qed

lemma uint_plus_margin:
  assumes "uint (x :: uint16_t) \<le> 65385"
  shows "uint (x + 150) = uint x + 150"
proof -
  have "uint (x + 150) = (uint x + 150) mod 65536"
    by (simp add: uint_word_ariths)
  also have "\<dots> = uint x + 150"
    using assms by simp
  finally show ?thesis .
qed

lemma uint_minus_margin:
  assumes "150 \<le> uint (x :: uint16_t)"
  shows "uint (x - 150) = uint x - 150"
proof -
  have "uint (x - 150) = (uint x - 150) mod 65536"
    by (simp add: uint_word_ariths)
  also have "\<dots> = uint x - 150"
    using assms uint_lt2p [of x] by simp
  finally show ?thesis .
qed

lemma is_pulse_match_no_wrap:
  assumes "3 \<le> uint t" and "uint t \<le> 1307"
  shows "is_pulse_match e t \<longleftrightarrow> \<bar>uint e - 50 * uint t\<bar> \<le> 150"
proof -
  have a: "uint (t * 50) = uint t * 50"
    using assms by (simp add: uint_ticks_us)
  have p: "uint (t * 50 + 150) = uint t * 50 + 150"
    using assms a by (simp add: uint_plus_margin)
  have m: "uint (t * 50 - 150) = uint t * 50 - 150"
    using assms a by (simp add: uint_minus_margin)
  have "is_pulse_match e t \<longleftrightarrow> uint e \<le> uint t * 50 + 150 \<and> uint t * 50 - 150 \<le> uint e"
    by (simp add: is_pulse_match_def word_le_def p m)
  also have "\<dots> \<longleftrightarrow> \<bar>uint e - 50 * uint t\<bar> \<le> 150"
    by linarith
  finally show ?thesis .
qed

lemma is_pulse_match_below:
  assumes "3 \<le> uint t" and "uint t \<le> 1307"
  shows "\<not> is_pulse_match (t * 50 - 151) t"
proof (cases "uint t = 3")
  case True
  have "uint (t * 50 - 151) = (uint (t * 50) - 151) mod 65536"
    by (simp add: uint_word_ariths)
  also have "\<dots> = 65535"
    using True by (simp add: uint_ticks_us)
  finally show ?thesis
    using assms True by (simp add: is_pulse_match_no_wrap)
next
  case False
  have a: "uint (t * 50) = uint t * 50"
    using assms by (simp add: uint_ticks_us)
  have "uint (t * 50 - 151) = (uint (t * 50) - 151) mod 65536"
    by (simp add: uint_word_ariths)
  also have "\<dots> = uint t * 50 - 151"
    using assms False a by simp
  finally show ?thesis
    using assms by (simp add: is_pulse_match_no_wrap)
qed

lemma is_pulse_match_above:
  assumes "3 \<le> uint t" and "uint t \<le> 1307"
  shows "\<not> is_pulse_match (t * 50 + 151) t"
proof -
  have a: "uint (t * 50) = uint t * 50"
    using assms by (simp add: uint_ticks_us)
  have "uint (t * 50 + 151) = (uint (t * 50) + 151) mod 65536"
    by (simp add: uint_word_ariths)
  also have "\<dots> = uint t * 50 + 151"
    using assms a by simp
  finally show ?thesis
    using assms by (simp add: is_pulse_match_no_wrap)
qed

lemma is_pulse_match_edges:
  assumes "3 \<le> uint t" and "uint t \<le> 1307"
  shows "is_pulse_match (t * 50 - 150) t" and "is_pulse_match (t * 50 + 150) t"
proof -
  have a: "uint (t * 50) = uint t * 50"
    using assms by (simp add: uint_ticks_us)
  have "uint (t * 50 - 150) = uint t * 50 - 150"
    using assms a by (simp add: uint_minus_margin)
  then show "is_pulse_match (t * 50 - 150) t"
    using assms by (simp add: is_pulse_match_no_wrap)
  have "uint (t * 50 + 150) = uint t * 50 + 150"
    using assms a by (simp add: uint_plus_margin)
  then show "is_pulse_match (t * 50 + 150) t"
    using assms by (simp add: is_pulse_match_no_wrap)
qed

text \<open>
  Claim C4, as stated, fails. The claim says that for every expected duration \<open>e\<close> and
  observed duration \<open>o\<close> (the tick count times 50) the function reports a match exactly when
  \<open>|e - o| \<le> 150\<close>. A mark of 1491 ticks lasts 74550 microseconds, but its 16-bit product
  with 50 is 9014, so it matches 9000; and 2 ticks (100 microseconds) are within 150 of
  200, but \<open>100 - 150\<close> wraps to 65486 and the match fails.
\<close>

theorem is_pulse_match_wraps_counterexample:
  "\<not> (is_pulse_match 9000 1491 \<longleftrightarrow> \<bar>9000 - 1491 * 50\<bar> \<le> (150::int))
   \<and> \<not> (is_pulse_match 200 2 \<longleftrightarrow> \<bar>200 - 2 * 50\<bar> \<le> (150::int))"
  by (simp add: is_pulse_match_def)

text \<open>
  Claim C4, amended: for every expected duration \<open>e\<close> and every tick count \<open>t\<close> from 3 to
  1307 (an observed duration \<open>o = 50 * t\<close> from 150 to 65350 microseconds, where no 16-bit
  operation of the function wraps), \<open>is_pulse_match\<close> reports a match if and only if
  \<open>|e - o| \<le> 150\<close>; in particular it matches \<open>o - 150\<close> and \<open>o + 150\<close> and does not match
  \<open>o - 151\<close> and \<open>o + 151\<close>.
\<close>

theorem is_pulse_match_symmetric_margin:
  assumes "3 \<le> uint t" and "uint t \<le> 1307"
  shows "(is_pulse_match e t \<longleftrightarrow> \<bar>uint e - 50 * uint t\<bar> \<le> 150)
    \<and> is_pulse_match (t * 50 - 150) t \<and> is_pulse_match (t * 50 + 150) t
    \<and> \<not> is_pulse_match (t * 50 - 151) t \<and> \<not> is_pulse_match (t * 50 + 151) t"
  using assms is_pulse_match_no_wrap [of t e] is_pulse_match_edges [of t]
    is_pulse_match_below [of t] is_pulse_match_above [of t]
  by blast

text \<open>The amended claim at 11 ticks (550 microseconds) against the mark duration 560.\<close>

theorem is_pulse_match_symmetric_margin_witness:
  "3 \<le> uint (11 :: uint16_t) \<and> uint (11 :: uint16_t) \<le> 1307
    \<and> (is_pulse_match 560 11 \<longleftrightarrow> \<bar>uint (560 :: uint16_t) - 50 * uint (11 :: uint16_t)\<bar> \<le> 150)
    \<and> is_pulse_match 400 11 \<and> is_pulse_match 700 11
    \<and> \<not> is_pulse_match 399 11 \<and> \<not> is_pulse_match 701 11"
  using is_pulse_match_symmetric_margin [of 11 560] by simp

section \<open>The interrupt handlers\<close>

lemma tick_ino_noop: "tick_ino a s = Inr (s\<lparr>TCNT2 := TIMER_COUNT_START_VALUE\<rparr>)"
  by (simp add: tick_ino_def Let_def)

lemma run_ticks_ino:
  "run_ticks tick_ino samples s =
     Inr (if samples = [] then s else s\<lparr>TCNT2 := TIMER_COUNT_START_VALUE\<rparr>)"
  by (induction samples arbitrary: s) (simp_all add: tick_ino_noop)

lemma tick_pde_finished:
  "state s = STATE_FINISHED \<Longrightarrow> tick_pde a s = Inr (s\<lparr>TCNT2 := INITIAL_TIMER_COUNT_VALUE\<rparr>)"
  by (simp add: tick_pde_def Let_def)

lemma run_ticks_pde_finished:
  "state s = STATE_FINISHED \<Longrightarrow> run_ticks tick_pde samples s =
     Inr (if samples = [] then s else s\<lparr>TCNT2 := INITIAL_TIMER_COUNT_VALUE\<rparr>)"
  by (induction samples arbitrary: s) (simp_all add: tick_pde_finished)

text \<open>
  Claim C10: in the .ino file the handler, at every value of the capture state and every
  line sample, leaves \<open>state\<close>, \<open>ir_pulses\<close>, \<open>current_ir_pulse_index\<close>,
  \<open>number_of_pulses\<close> and \<open>current_pulse_block_counter\<close> as they were (it prints nothing
  either); so does any run of the handler, and no run from the initial state leaves Idle.
\<close>

theorem tick_ino_changes_nothing:
  "(\<exists>s'. tick_ino a s = Inr s' \<and> same_shared s s' \<and> serial s' = serial s)
   \<and> (\<exists>s'. run_ticks tick_ino samples s = Inr s' \<and> same_shared s s' \<and> serial s' = serial s)
   \<and> (\<exists>s'. run_ticks tick_ino samples initial_engine_ino = Inr s' \<and> state s' = STATE_IDLE)"
  by (simp add: tick_ino_noop run_ticks_ino same_shared_def initial_engine_ino_def
        initial_engine_def)

text \<open>
  Claim C7: while the capture state is Finished, any number of line samples leaves the
  state, the pulse buffer, the buffer index, the pulse count and the tick counter as they
  were, in the handler of either file; only the timer register is reloaded.
\<close>

theorem tick_finished_is_noop:
  "state s = STATE_FINISHED \<Longrightarrow>
     (\<exists>s'. run_ticks tick_pde samples s = Inr s' \<and> same_shared s s' \<and> serial s' = serial s)
   \<and> (\<exists>s'. run_ticks tick_ino samples s = Inr s' \<and> same_shared s s' \<and> serial s' = serial s)"
  by (simp add: run_ticks_pde_finished run_ticks_ino same_shared_def)

text \<open>Three samples arriving while a captured frame waits for the consumer.\<close>

theorem tick_finished_is_noop_witness:
  "state (frame_engine (nec_frame 0)) = STATE_FINISHED \<and>
     (\<exists>s'. run_ticks tick_pde [True, False, True] (frame_engine (nec_frame 0)) = Inr s'
        \<and> same_shared (frame_engine (nec_frame 0)) s'
        \<and> serial s' = serial (frame_engine (nec_frame 0)))
   \<and> (\<exists>s'. run_ticks tick_ino [True, False, True] (frame_engine (nec_frame 0)) = Inr s'
        \<and> same_shared (frame_engine (nec_frame 0)) s'
        \<and> serial s' = serial (frame_engine (nec_frame 0)))"
  using tick_finished_is_noop [of "frame_engine (nec_frame 0)" "[True, False, True]"]
  by (simp add: frame_engine_def)

text \<open>
  Claim C9 against the code: in Idle with the line active the .pde handler starts a mark
  (state Mark, counter 1 stored at index 0), while the .ino handler returns at its guard
  and changes nothing. The two handlers differ outside the timeout
  case.
\<close>

theorem tick_variants_differ_in_idle:
  "tick_pde True initial_engine =
     Inr (initial_engine\<lparr>ir_pulses := (replicate IR_PULSES_SIZE 0)[0 := 1],
            state := STATE_MARK, timeblock_counter := 1\<rparr>)
   \<and> tick_ino True initial_engine_ino = Inr initial_engine_ino"
  by (simp add: tick_pde_def tick_ino_noop store_pulse_def initial_engine_def
        initial_engine_ino_def)

text \<open>
  Claim C6, on the handler of the .pde file, which increments the counter before it tests
  it: in the Space state, when the counter reaches 600 or more at this tick the handler
  goes to Finished, records the buffer index as the pulse count and resets the index to 0
  (it writes nothing to the buffer, so the trailing space is not counted); when the
  counter stays below 600 and the line is inactive, the handler stays in Space and stores
  the counter at the current index.
\<close>

theorem tick_pde_timeout_boundary:
  assumes "state s = STATE_SPACE"
  shows "(600 \<le> timeblock_counter s + 1 \<longrightarrow>
            tick_pde a s =
              Inr (s\<lparr>TCNT2 := INITIAL_TIMER_COUNT_VALUE, state := STATE_FINISHED,
                     timeblock_counter := 0, number_of_pulses := current_ir_pulse_index s,
                     current_ir_pulse_index := 0\<rparr>))
       \<and> (timeblock_counter s + 1 < 600 \<and> unat (current_ir_pulse_index s) < IR_PULSES_SIZE \<longrightarrow>
            tick_pde False s =
              Inr (s\<lparr>TCNT2 := INITIAL_TIMER_COUNT_VALUE,
                     timeblock_counter := timeblock_counter s + 1,
                     ir_pulses := (ir_pulses s)[unat (current_ir_pulse_index s) :=
                                                  timeblock_counter s + 1]\<rparr>))"
  using assms by (auto simp add: tick_pde_def Let_def store_pulse_def)

text \<open>
  The boundary itself, at index 67 with the line inactive: a counter that reaches 600
  (599 before the tick) ends the frame with 67 pulses, a counter that reaches 599 (598
  before the tick) does not.
\<close>

theorem tick_pde_timeout_boundary_witness:
  "state (initial_engine\<lparr>state := STATE_SPACE, current_ir_pulse_index := 67,
                         timeblock_counter := 599\<rparr>) = STATE_SPACE
   \<and> tick_pde False (initial_engine\<lparr>state := STATE_SPACE, current_ir_pulse_index := 67,
                                     timeblock_counter := 599\<rparr>)
       = Inr (initial_engine\<lparr>state := STATE_FINISHED, current_ir_pulse_index := 0,
                timeblock_counter := 0, number_of_pulses := 67,
                TCNT2 := INITIAL_TIMER_COUNT_VALUE\<rparr>)
   \<and> tick_pde False (initial_engine\<lparr>state := STATE_SPACE, current_ir_pulse_index := 67,
                                     timeblock_counter := 598\<rparr>)
       = Inr (initial_engine\<lparr>state := STATE_SPACE, current_ir_pulse_index := 67,
                timeblock_counter := 599,
                ir_pulses := (replicate IR_PULSES_SIZE 0)[67 := 599],
                TCNT2 := INITIAL_TIMER_COUNT_VALUE\<rparr>)"
  using tick_pde_timeout_boundary
          [of "initial_engine\<lparr>state := STATE_SPACE, current_ir_pulse_index := 67,
                                timeblock_counter := 599\<rparr>" False]
        tick_pde_timeout_boundary
          [of "initial_engine\<lparr>state := STATE_SPACE, current_ir_pulse_index := 67,
                                timeblock_counter := 598\<rparr>" False]
  by (simp add: initial_engine_def)

section \<open>Buffer capacity\<close>

lemma tick_pde_in_bounds:
  assumes "length (ir_pulses s) = IR_PULSES_SIZE" and "unat (current_ir_pulse_index s) < 199"
  shows "\<exists>s'. tick_pde a s = Inr s' \<and> length (ir_pulses s') = IR_PULSES_SIZE
            \<and> unat (current_ir_pulse_index s') < IR_PULSES_SIZE"
proof -
  have "unat (current_ir_pulse_index s + 1) = unat (current_ir_pulse_index s) + 1"
    using assms(2) by (simp add: unat_word_ariths)
  then show ?thesis
    using assms by (simp add: tick_pde_def Let_def store_pulse_def)
qed

lemma tick_pde_not_idle:
  "state s \<noteq> STATE_IDLE \<Longrightarrow> tick_pde a s = Inr s' \<Longrightarrow> state s' \<noteq> STATE_IDLE"
  by (auto simp add: tick_pde_def Let_def store_pulse_def split: if_splits)

text \<open>
  Claim C1, as stated, fails: the handler has no check of the buffer index. From the
  initial state, a line that changes level at every tick fills the buffer after 200
  samples, and the 201st sample makes the .pde handler write \<^verbatim>\<open>ir_pulses[200]\<close>, outside
  the array; the frame is not aborted and the engine does not return to Idle.
\<close>

theorem tick_pde_overflow_counterexample:
  "run_ticks tick_pde (concat (replicate 100 [True, False]) @ [True]) initial_engine
     = Inl (WriteOutOfBounds 200)"
  by code_simp

text \<open>
  Claim C1, amended: the engine has no overflow handling; for every state whose buffer
  index is below 199 and every line sample, the .pde handler writes only inside the
  200-entry buffer and leaves the index below 200, and the handler never takes a capture
  in progress back to Idle.
\<close>

theorem tick_pde_writes_in_bounds:
  assumes "length (ir_pulses s) = IR_PULSES_SIZE" and "unat (current_ir_pulse_index s) < 199"
  shows "\<exists>s'. tick_pde a s = Inr s' \<and> length (ir_pulses s') = IR_PULSES_SIZE
            \<and> unat (current_ir_pulse_index s') < IR_PULSES_SIZE
            \<and> (state s \<noteq> STATE_IDLE \<longrightarrow> state s' \<noteq> STATE_IDLE)"
  using tick_pde_in_bounds [OF assms, of a] tick_pde_not_idle [of s a] by auto

text \<open>The last edge that fits: a mark at index 198 that ends opens a space at index 199.\<close>

theorem tick_pde_writes_in_bounds_witness:
  "length (ir_pulses (initial_engine\<lparr>state := STATE_MARK, current_ir_pulse_index := 198\<rparr>))
     = IR_PULSES_SIZE
   \<and> unat (current_ir_pulse_index
             (initial_engine\<lparr>state := STATE_MARK, current_ir_pulse_index := 198\<rparr>)) < 199
   \<and> (\<exists>s'. tick_pde False (initial_engine\<lparr>state := STATE_MARK, current_ir_pulse_index := 198\<rparr>)
              = Inr s'
          \<and> length (ir_pulses s') = IR_PULSES_SIZE
          \<and> unat (current_ir_pulse_index s') < IR_PULSES_SIZE
          \<and> state s' \<noteq> STATE_IDLE)"
  using tick_pde_writes_in_bounds
          [of "initial_engine\<lparr>state := STATE_MARK, current_ir_pulse_index := 198\<rparr>" False]
  by (simp add: initial_engine_def)

section \<open>The decoding loop\<close>

lemma nec_loop_odd:
  "i < 66 \<Longrightarrow> odd i \<Longrightarrow>
   nec_loop pulses i d =
     nec_loop pulses (Suc i)
       (if is_pulse_match 565 (pulses ! i) then drop_bit 1 d OR 0x80000000 else drop_bit 1 d)"
  by (subst nec_loop.simps) (simp add: odd_iff_mod_2_eq_one)

lemma nec_loop_even:
  "i < 66 \<Longrightarrow> even i \<Longrightarrow>
   nec_loop pulses i d =
     (if is_pulse_match 560 (pulses ! i) then nec_loop pulses (Suc i) d else None)"
  by (subst nec_loop.simps) (simp add: even_iff_mod_2_eq_zero)

lemma nec_loop_end: "66 \<le> i \<Longrightarrow> nec_loop pulses i d = Some d"
  by (subst nec_loop.simps) simp

lemma top_bit: "bit (0x80000000 :: uint32_t) n \<longleftrightarrow> n = 31"
proof -
  have "(0x80000000 :: uint32_t) = 2 ^ 31" by simp
  then show ?thesis by (simp only: bit_exp_iff) auto
qed

lemma shift_in_bit:
  fixes d :: uint32_t
  shows "bit (if b then drop_bit 1 d OR 0x80000000 else drop_bit 1 d) n
           \<longleftrightarrow> (n < 31 \<and> bit d (Suc n)) \<or> (n = 31 \<and> b)"
  using top_bit [of n] by (auto simp add: bit_simps dest: bit_imp_le_length)

lemma nec_loop_bits:
  assumes marks: "\<And>j. j < 31 \<Longrightarrow> is_pulse_match 560 (pulses ! (4 + 2 * j))"
  shows "k \<le> 32 \<Longrightarrow>
    \<exists>w. nec_loop pulses (3 + 2 * k) d = Some w
       \<and> (\<forall>n<32. bit w n \<longleftrightarrow>
             (if n < k then bit d (n + (32 - k)) else is_pulse_match 565 (pulses ! (3 + 2 * n))))"
proof (induction "32 - k" arbitrary: k d)
  case 0
  then have "k = 32" by simp
  then show ?case by (simp add: nec_loop_end)
next
  case (Suc m)
  then have k: "k < 32" by simp
  let ?d' = "if is_pulse_match 565 (pulses ! (3 + 2 * k))
             then drop_bit 1 d OR 0x80000000 else drop_bit 1 d"
  from Suc have m: "m = 32 - Suc k" and k': "Suc k \<le> 32" by simp_all
  from Suc.hyps(1) [OF m k', of ?d']
  obtain w where w: "nec_loop pulses (3 + 2 * Suc k) ?d' = Some w"
    and bits: "\<forall>n<32. bit w n \<longleftrightarrow>
                 (if n < Suc k then bit ?d' (n + (32 - Suc k))
                  else is_pulse_match 565 (pulses ! (3 + 2 * n)))"
    by blast
  have step1: "nec_loop pulses (3 + 2 * k) d = nec_loop pulses (Suc (3 + 2 * k)) ?d'"
    using k by (intro nec_loop_odd) simp_all
  have step2: "nec_loop pulses (Suc (3 + 2 * k)) ?d' = nec_loop pulses (3 + 2 * Suc k) ?d'"
  proof (cases "k < 31")
    case True
    have "nec_loop pulses (Suc (3 + 2 * k)) ?d' =
            (if is_pulse_match 560 (pulses ! Suc (3 + 2 * k))
             then nec_loop pulses (Suc (Suc (3 + 2 * k))) ?d' else None)"
      using True by (intro nec_loop_even) simp_all
    moreover have "is_pulse_match 560 (pulses ! Suc (3 + 2 * k))"
      using marks [OF True] by simp
    ultimately show ?thesis by simp
  next
    case False
    with k have "k = 31" by simp
    then show ?thesis by (simp add: nec_loop_end)
  qed
  have "\<forall>n<32. bit w n \<longleftrightarrow>
          (if n < k then bit d (n + (32 - k)) else is_pulse_match 565 (pulses ! (3 + 2 * n)))"
  proof (intro allI impI)
    fix n :: nat
    assume n: "n < 32"
    show "bit w n \<longleftrightarrow>
          (if n < k then bit d (n + (32 - k)) else is_pulse_match 565 (pulses ! (3 + 2 * n)))"
    proof (cases "n < k")
      case True
      then have "bit w n \<longleftrightarrow> bit ?d' (n + (32 - Suc k))" using bits n by simp
      also have "\<dots> \<longleftrightarrow> bit d (Suc (n + (32 - Suc k)))"
        using True k by (subst shift_in_bit) auto
      also have "Suc (n + (32 - Suc k)) = n + (32 - k)" using k by simp
      finally show ?thesis using True by simp
    next
      case False
      show ?thesis
      proof (cases "n = k")
        case True
        then have "bit w n \<longleftrightarrow> bit ?d' 31" using bits n k by simp
        also have "\<dots> \<longleftrightarrow> is_pulse_match 565 (pulses ! (3 + 2 * k))"
          by (subst shift_in_bit) simp
        finally show ?thesis using True by simp
      next
        case False
        with \<open>\<not> n < k\<close> have "\<not> n < Suc k" by simp
        then show ?thesis using bits n \<open>\<not> n < k\<close> by simp
      qed
    qed
  qed
  with w step1 step2 show ?case by simp
qed


lemma nec_decode_bits:
  assumes "number_of_pulses s = 67"
    and "is_pulse_match 9000 (ir_pulses s ! 0)" and "is_pulse_match 4500 (ir_pulses s ! 1)"
    and "is_pulse_match 560 (ir_pulses s ! 66)"
    and marks: "\<And>j. j < 31 \<Longrightarrow> is_pulse_match 560 (ir_pulses s ! (4 + 2 * j))"
  shows "\<exists>w. nec_decode s = Some w
            \<and> (\<forall>n<32. bit w n \<longleftrightarrow> is_pulse_match 565 (ir_pulses s ! (3 + 2 * n)))"
proof -
  have "nec_decode s = nec_loop (ir_pulses s) (3 + 2 * 0) 0"
    using assms(1-4) by (simp add: nec_decode_def)
  moreover from nec_loop_bits [of "ir_pulses s" 0 0, OF marks]
  obtain w where "nec_loop (ir_pulses s) (3 + 2 * 0) 0 = Some w"
    and "\<forall>n<32. bit w n \<longleftrightarrow> is_pulse_match 565 (ir_pulses s ! (3 + 2 * n))"
    by auto
  ultimately show ?thesis by auto
qed

lemma zero_space_is_not_one_space: "is_pulse_match 1690 x \<Longrightarrow> \<not> is_pulse_match 565 x"
  unfolding is_pulse_match_def Let_def
  by unat_arith

lemma nec_shapedD:
  assumes "nec_shaped pulses v" and "k < 32"
  shows "is_pulse_match 560 (pulses ! (2 + 2 * k))"
    and "is_pulse_match 565 (pulses ! (3 + 2 * k)) \<longleftrightarrow> bit v k"
proof -
  from assms have a: "is_pulse_match 560 (pulses ! (2 + 2 * k))
      \<and> is_pulse_match (if bit v k then 565 else 1690) (pulses ! (3 + 2 * k))"
    by (simp add: nec_shaped_def list_all_iff)
  then show "is_pulse_match 560 (pulses ! (2 + 2 * k))" by simp
  from a show "is_pulse_match 565 (pulses ! (3 + 2 * k)) \<longleftrightarrow> bit v k"
    using zero_space_is_not_one_space [of "pulses ! (3 + 2 * k)"]
    by (cases "bit v k") simp_all
qed

lemma nec_decode_shaped:
  assumes n: "number_of_pulses s = 67" and shaped: "nec_shaped (ir_pulses s) v"
  shows "nec_decode s = Some v"
proof -
  have marks: "is_pulse_match 560 (ir_pulses s ! (4 + 2 * j))" if "j < 31" for j
  proof -
    have "2 + 2 * Suc j = 4 + 2 * j" by simp
    moreover have "is_pulse_match 560 (ir_pulses s ! (2 + 2 * Suc j))"
      using that by (intro nec_shapedD(1) [OF shaped]) simp
    ultimately show ?thesis by (simp only:)
  qed
  from shaped have lead: "is_pulse_match 9000 (ir_pulses s ! 0)"
    "is_pulse_match 4500 (ir_pulses s ! 1)" "is_pulse_match 560 (ir_pulses s ! 66)"
    by (simp_all add: nec_shaped_def)
  from nec_decode_bits [OF n lead marks]
  obtain w where w: "nec_decode s = Some w"
    and bits: "\<forall>n<32. bit w n \<longleftrightarrow> is_pulse_match 565 (ir_pulses s ! (3 + 2 * n))"
    by blast
  have "w = v"
  proof (rule bit_word_eqI)
    fix n assume "n < LENGTH(32)"
    then have "n < 32" by simp
    then show "bit w n \<longleftrightarrow> bit v n"
      using bits nec_shapedD(2) [OF shaped, of n] by simp
  qed
  with w show ?thesis by simp
qed

lemma nec_frame_shaped: "nec_shaped (nec_frame v) v"
  by (simp add: nec_shaped_def nec_frame_def list_all_iff is_pulse_match_def)

lemma nec_loop_checks_marks:
  "nec_loop pulses i d = Some w \<Longrightarrow> i \<le> j \<Longrightarrow> j < 66 \<Longrightarrow> even j
     \<Longrightarrow> is_pulse_match 560 (pulses ! j)"
proof (induction pulses i d rule: nec_loop.induct)
  case (1 pulses i nec_data)
  from 1(4,5) have i: "i < 66" by simp
  show ?case
  proof (cases "odd i")
    case True
    with 1(6) have "i \<noteq> j" by auto
    with 1(4) have "i + 1 \<le> j" by simp
    moreover from True i 1(3) have
      "nec_loop pulses (i + 1)
         (if is_pulse_match 565 (pulses ! i) then drop_bit 1 nec_data OR 0x80000000
          else drop_bit 1 nec_data) = Some w"
      by (simp add: nec_loop_odd)
    ultimately show ?thesis
      using 1(1) [OF i _ _ _ 1(5,6)] True by (simp add: odd_iff_mod_2_eq_one)
  next
    case False
    with i 1(3) have m: "is_pulse_match 560 (pulses ! i)"
      and next_call: "nec_loop pulses (i + 1) nec_data = Some w"
      by (simp_all add: nec_loop_even split: if_splits)
    show ?thesis
    proof (cases "i = j")
      case True
      with m show ?thesis by simp
    next
      case neq: False
      with 1(4) have "i + 1 \<le> j" by simp
      then show ?thesis
        using 1(2) [OF i _ _ next_call _ 1(5,6)] False m
        by (simp add: even_iff_mod_2_eq_zero)
    qed
  qed
qed

lemma nec_decode_checks_marks:
  assumes "nec_decode s = Some w" and "j < 31"
  shows "is_pulse_match 560 (ir_pulses s ! (4 + 2 * j))"
proof -
  from assms(1) have "nec_loop (ir_pulses s) 3 0 = Some w"
    by (simp add: nec_decode_def split: if_splits)
  from nec_loop_checks_marks [OF this, of "4 + 2 * j"] assms(2)
  show ?thesis by simp
qed

text \<open>
  Claim C5: a 67-pulse buffer that is NEC-shaped for a 32-bit value \<open>v\<close> (leader, marks
  and stop within tolerance, the space of bit \<open>k\<close> at index \<open>3 + 2 * k\<close> within tolerance
  of 565 where the bit is 1 and of 1690 where it is 0) decodes to exactly \<open>v\<close>: the space
  at index 3 gives bit 0, the space at index 65 gives bit 31.
\<close>

theorem nec_decode_round_trip:
  "length (ir_pulses s) = IR_PULSES_SIZE \<Longrightarrow> number_of_pulses s = 67
     \<Longrightarrow> nec_shaped (ir_pulses s) v \<Longrightarrow> nec_decode s = Some v"
  by (rule nec_decode_shaped)

text \<open>The round trip of the value 0x00FF00FF through its synthetic frame.\<close>

theorem nec_decode_round_trip_witness:
  "length (ir_pulses (frame_engine (nec_frame 0x00FF00FF))) = IR_PULSES_SIZE
   \<and> number_of_pulses (frame_engine (nec_frame 0x00FF00FF)) = 67
   \<and> nec_shaped (ir_pulses (frame_engine (nec_frame 0x00FF00FF))) 0x00FF00FF
   \<and> nec_decode (frame_engine (nec_frame 0x00FF00FF)) = Some 0x00FF00FF"
  using nec_decode_round_trip [of "frame_engine (nec_frame 0x00FF00FF)" "0x00FF00FF"]
    nec_frame_shaped [of "0x00FF00FF"]
  by (simp add: frame_engine_def nec_frame_def)

text \<open>
  Claim C2 against the code: the header of \<^verbatim>\<open>try_print_nec_details\<close> in the .ino file
  gives the NEC format as "0 bit: 560 on, 1690 off" and "1 bit: 560 on, 565 off" and says
  the function returns 0 when the data is not NEC, but the loop compares a space with 565
  only and never with 1690. The frame of 0x00FF00FF with its first payload space (index 3)
  set to 100 ticks (5000 microseconds) passes the count, leader and stop checks, all its
  marks match 560, its space at index 3 matches neither 1690 nor 565, and the decoder
  accepts it all the same and produces the word 0x00FF00FE.
\<close>

theorem nec_decode_accepts_unmatched_space:
  "number_of_pulses (frame_engine ((nec_frame 0x00FF00FF)[3 := 100])) = 67
   \<and> is_pulse_match 9000 ((nec_frame 0x00FF00FF)[3 := 100] ! 0)
   \<and> is_pulse_match 4500 ((nec_frame 0x00FF00FF)[3 := 100] ! 1)
   \<and> is_pulse_match 560 ((nec_frame 0x00FF00FF)[3 := 100] ! 66)
   \<and> list_all (\<lambda>k. is_pulse_match 560 ((nec_frame 0x00FF00FF)[3 := 100] ! (2 + 2 * k)))
        [0..<32]
   \<and> \<not> is_pulse_match 1690 ((nec_frame 0x00FF00FF)[3 := 100] ! 3)
   \<and> \<not> is_pulse_match 565 ((nec_frame 0x00FF00FF)[3 := 100] ! 3)
   \<and> nec_decode (frame_engine ((nec_frame 0x00FF00FF)[3 := 100])) = Some 0x00FF00FE"
  by code_simp

text \<open>So that frame is not reported as unrecognized: the decoder returns a word for it.\<close>

theorem nec_decode_accepts_unmatched_space_witness:
  "nec_decode (frame_engine ((nec_frame 0x00FF00FF)[3 := 100])) \<noteq> None"
  using nec_decode_accepts_unmatched_space by simp

text \<open>
  Claim C3 against the code: the loop starts at index 3, so the payload mark at index 2
  is never compared with 560. The frame of 0x00FF00FF with the pulse at index 2 set to 100
  ticks (5000 microseconds) fails the 560 match at index 2 and is accepted all the same.
  The marks at indices 4, 6, ..., 64 are checked (\<open>nec_decode_checks_marks\<close>).
\<close>

theorem nec_decode_skips_mark_at_index_2:
  "number_of_pulses (frame_engine ((nec_frame 0x00FF00FF)[2 := 100])) = 67
   \<and> \<not> is_pulse_match 560 (ir_pulses (frame_engine ((nec_frame 0x00FF00FF)[2 := 100])) ! 2)
   \<and> nec_decode (frame_engine ((nec_frame 0x00FF00FF)[2 := 100])) = Some 0x00FF00FF"
  by code_simp

text \<open>So that frame is not reported as unrecognized: the decoder returns a word for it.\<close>

theorem nec_decode_skips_mark_at_index_2_witness:
  "nec_decode (frame_engine ((nec_frame 0x00FF00FF)[2 := 100])) \<noteq> None"
  using nec_decode_skips_mark_at_index_2 by simp

section \<open>Frames handed to the consumer\<close>






lemma nec_decode_serial [simp]: "nec_decode (s\<lparr>serial := x\<rparr>) = nec_decode s"
  by (simp add: nec_decode_def)












end
